theory Spec2Isabelle
  imports Complex_Main
begin

section \<open>Values, tables and the error-rate registry\<close>

text \<open>
  The program (\<^verbatim>\<open>file_processor.py\<close>) validates a table that \<^verbatim>\<open>extract_data\<close> has read
  from a delimited file with pandas. A cell of such a table is a missing value (NaN), a
  boolean, an integer, a float or a text. Floats are never computed with by the checks, only
  tested for their kind and compared, so a finite float is written as the rational it denotes.
\<close>

datatype val = Null | BoolV bool | IntV int | FloatV rat | StrV string

text \<open>
  A table has column names and rows; every row carries its row label (\<^verbatim>\<open>df.index\<close>, which
  \<^verbatim>\<open>extract_data\<close> sets to the position plus 2) and its cells in column order.
\<close>

record table =
  tcolumns :: "string list"
  trows :: "(int \<times> val list) list"

text \<open>The exceptions of the program and of the library calls it makes.\<close>

datatype py_error =
    KeyError string
  | ColumnNotFoundError string
  | IndexError
  | ValueError
  | TypeError
  | AttributeError

text \<open>
  The module-level dictionary \<^verbatim>\<open>problems\<close> is the error-rate registry. It is global state of
  the program, so every check takes the registry and returns it with its result; an
  exception leaves the registry as it was when the exception was raised.
\<close>

type_synonym registry = "string \<rightharpoonup> string"

definition set_percentage_error :: "string \<Rightarrow> string \<Rightarrow> registry \<Rightarrow> registry" where
  "set_percentage_error field error problems = problems(field \<mapsto> error)"

subsection \<open>Reading a column\<close>

fun first_pos :: "'a \<Rightarrow> 'a list \<Rightarrow> nat" where
  "first_pos x [] = 0"
| "first_pos x (y # ys) = (if x = y then 0 else Suc (first_pos x ys))"

text \<open>A row shorter than the header reads as missing values, as the file reader fills it.\<close>

definition cell_at :: "val list \<Rightarrow> nat \<Rightarrow> val" where
  "cell_at cs n = (if n < length cs then cs ! n else Null)"

text \<open>\<^verbatim>\<open>df[field]\<close>: the labelled values of a column; a \<^verbatim>\<open>KeyError\<close> when there is no such column.\<close>

definition column :: "table \<Rightarrow> string \<Rightarrow> py_error + (int \<times> val) list" where
  "column df field =
     (if field \<in> set (tcolumns df)
      then Inr (map (\<lambda>(i, cs). (i, cell_at cs (first_pos field (tcolumns df)))) (trows df))
      else Inl (KeyError field))"

subsection \<open>Percentages and their text\<close>

text \<open>
  A percentage variable of the program holds either the Python integer it was initialised
  with, or the float that \<^verbatim>\<open>round(x, 4)\<close> returned. Every float the program rounds is
  \<^verbatim>\<open>num / den * 100\<close> for two integers with \<^verbatim>\<open>den\<close> positive (a count of flagged rows over
  the number of rows, or a difference of lengths over a length). Python floats are idealised:
  the quotient and the product are the exact rational numbers, and \<^verbatim>\<open>round(x, 4)\<close> rounds
  half to even on the exact value. The rounded float is kept as its sign and its magnitude in
  units of 1/10000; the sign survives rounding to zero, as in Python. \<^verbatim>\<open>str\<close> of such a
  float is its shortest decimal form: the integer part, a point, and the fraction without
  trailing zeros but with at least one digit. Magnitudes from 10^16 on, which Python prints
  with an exponent, are outside this model.
\<close>

datatype percentage = PyInt int | PyFloat4 bool nat

definition half_even_div :: "nat \<Rightarrow> nat \<Rightarrow> nat" where
  "half_even_div a b =
     (let q = a div b; r = a mod b
      in if 2 * r < b then q else if b < 2 * r then q + 1 else if even q then q else q + 1)"

definition py_round4 :: "int \<Rightarrow> nat \<Rightarrow> percentage" where
  "py_round4 num den = PyFloat4 (num < 0) (half_even_div (nat \<bar>num\<bar> * 1000000) den)"

definition digit_char :: "nat \<Rightarrow> char" where
  "digit_char d = ''0123456789'' ! (d mod 10)"

function nat_str :: "nat \<Rightarrow> string" where
  "nat_str n = (if n < 10 then [digit_char n] else nat_str (n div 10) @ [digit_char (n mod 10)])"
  by pat_completeness auto
termination
  by (relation "measure id") auto

declare nat_str.simps [simp del]

definition int_str :: "int \<Rightarrow> string" where
  "int_str i = (if i < 0 then ''-'' @ nat_str (nat (- i)) else nat_str (nat i))"

definition frac4 :: "nat \<Rightarrow> string" where
  "frac4 u =
     (case dropWhile (\<lambda>d. d = 0) [u mod 10, u div 10 mod 10, u div 100 mod 10, u div 1000 mod 10] of
        [] \<Rightarrow> ''0''
      | ds \<Rightarrow> map digit_char (rev ds))"

fun py_str :: "percentage \<Rightarrow> string" where
  "py_str (PyInt i) = int_str i"
| "py_str (PyFloat4 neg u) =
     (if neg then ''-'' else '''') @ nat_str (u div 10000) @ ''.'' @ frac4 (u mod 10000)"

text \<open>\<^verbatim>\<open>mask.any()\<close> of a boolean mask, and the number of its true entries. The mean
  \<^verbatim>\<open>mask.mean()\<close> is that number over the length of the mask; the program only takes it of a
  mask with a true entry, so the length is positive there.\<close>

definition mask_any :: "bool list \<Rightarrow> bool" where
  "mask_any bs = (True \<in> set bs)"

definition count_true :: "bool list \<Rightarrow> nat" where
  "count_true bs = length (filter id bs)"

text \<open>\<^verbatim>\<open>round(mask.mean() * 100, 4)\<close>.\<close>

definition mask_percentage :: "bool list \<Rightarrow> percentage" where
  "mask_percentage bs = py_round4 (int (count_true bs)) (length bs)"

definition error_rate :: "percentage \<Rightarrow> string" where
  "error_rate p = ''Error_rate: '' @ py_str p @ ''%''"

section \<open>Finding tables\<close>

text \<open>
  Every check returns a pandas frame. A cell of such a frame is a value of the table or, in
  the \<^verbatim>\<open>repeated_indexes\<close> column of the uniqueness check, a Python list. A frame has an
  index (one label per row, named or not), column names and rows. \<^verbatim>\<open>range_columns\<close> tells the
  column axis of \<^verbatim>\<open>pd.DataFrame()\<close>, an empty integer range (pandas 2), from an axis of names.
\<close>

datatype cell = Val val | ListV "val list"

record frame =
  index_name :: "string option"
  range_columns :: bool
  columns :: "string list"
  rows :: "(cell \<times> cell list) list"

text \<open>\<^verbatim>\<open>pd.DataFrame(columns=[...])\<close>: no rows, the given column names.\<close>

definition empty_frame :: "string list \<Rightarrow> frame" where
  "empty_frame cols = \<lparr>index_name = None, range_columns = False, columns = cols, rows = []\<rparr>"

text \<open>\<^verbatim>\<open>pd.DataFrame({'index': ids, flag: True})\<close>: the row labels as an ordinary column named
  \<^verbatim>\<open>index\<close>, the flag column, and the positions as index.\<close>

definition flag_frame :: "int list \<Rightarrow> string \<Rightarrow> frame" where
  "flag_frame ids flag =
     \<lparr>index_name = None, range_columns = False, columns = [''index'', flag],
      rows = map (\<lambda>(n, i). (Val (IntV (int n)), [Val (IntV i), Val (BoolV True)]))
               (enumerate 0 ids)\<rparr>"

text \<open>The same frame after \<^verbatim>\<open>new_df = new_df.set_index('index')\<close>: the labels are the index,
  named \<^verbatim>\<open>index\<close>, and the flag is the only column.\<close>

definition indexed_flag_frame :: "int list \<Rightarrow> string \<Rightarrow> frame" where
  "indexed_flag_frame ids flag =
     \<lparr>index_name = Some ''index'', range_columns = False, columns = [flag],
      rows = map (\<lambda>i. (Val (IntV i), [Val (BoolV True)])) ids\<rparr>"

text \<open>\<^verbatim>\<open>df.index[mask]\<close>: the labels of the rows the mask selects.\<close>

definition index_at :: "bool list \<Rightarrow> (int \<times> 'a) list \<Rightarrow> int list" where
  "index_at bs col = map (fst \<circ> snd) (filter fst (zip bs col))"

subsection \<open>Kinds of values\<close>

text \<open>\<^verbatim>\<open>pd.isnull(x)\<close>, and \<^verbatim>\<open>isinstance(x, T)\<close> for the three types the checks ask for. A
  Python \<^verbatim>\<open>bool\<close> is an \<^verbatim>\<open>int\<close>; the missing value of a table read from a file is the float
  NaN.\<close>

definition isnull :: "val \<Rightarrow> bool" where
  "isnull x = (x = Null)"

fun isinstance_str :: "val \<Rightarrow> bool" where
  "isinstance_str (StrV s) = True"
| "isinstance_str x = False"

fun isinstance_int :: "val \<Rightarrow> bool" where
  "isinstance_int (IntV i) = True"
| "isinstance_int (BoolV b) = True"
| "isinstance_int x = False"

fun isinstance_float :: "val \<Rightarrow> bool" where
  "isinstance_float (FloatV r) = True"
| "isinstance_float Null = True"
| "isinstance_float x = False"

section \<open>The field checks\<close>

type_synonym 'a result = "(py_error + 'a) \<times> registry"

subsection \<open>Presence\<close>

definition validate_none_fields :: "table \<Rightarrow> string \<Rightarrow> registry \<Rightarrow> frame result" where
  "validate_none_fields df field problems =
     (case column df field of
        Inl e \<Rightarrow> (Inl e, problems)
      | Inr col \<Rightarrow>
          (let none_mask = map (isnull \<circ> snd) col
           in if mask_any none_mask
              then (Inr (indexed_flag_frame (index_at none_mask col) (''NONE_'' @ field @ ''_VALUE'')),
                    set_percentage_error field (error_rate (mask_percentage none_mask)) problems)
              else (Inr (empty_frame [''index'', ''NONE_'' @ field @ ''_VALUE'']),
                    set_percentage_error field (error_rate (PyInt 0)) problems)))"

subsection \<open>Type checks\<close>

text \<open>The string check and the integer check write the registry only when they flag a row;
  their \<^verbatim>\<open>new_df.set_index('index')\<close> is not assigned, so \<^verbatim>\<open>index\<close> stays a column.\<close>

definition validate_string_fields :: "table \<Rightarrow> string \<Rightarrow> registry \<Rightarrow> frame result" where
  "validate_string_fields df field problems =
     (case column df field of
        Inl e \<Rightarrow> (Inl e, problems)
      | Inr col \<Rightarrow>
          (let non_string_mask = map (\<lambda>(i, x). \<not> isinstance_str x \<and> \<not> isnull x) col
           in if mask_any non_string_mask
              then (Inr (flag_frame (index_at non_string_mask col) (''NULL_'' @ field @ ''_STRING'')),
                    set_percentage_error field (error_rate (mask_percentage non_string_mask)) problems)
              else (Inr (empty_frame [''index'', ''NULL_'' @ field @ ''_STRING'']), problems)))"

definition validate_int_fields :: "table \<Rightarrow> string \<Rightarrow> registry \<Rightarrow> frame result" where
  "validate_int_fields df field problems =
     (case column df field of
        Inl e \<Rightarrow> (Inl e, problems)
      | Inr col \<Rightarrow>
          (let non_null_int_mask =
                 map (\<lambda>(i, x). \<not> (isinstance_int x \<or> isinstance_float x) \<and> \<not> isnull x) col
           in if mask_any non_null_int_mask
              then (Inr (flag_frame (index_at non_null_int_mask col) (''NULL_'' @ field @ ''_INT'')),
                    set_percentage_error field (error_rate (mask_percentage non_null_int_mask)) problems)
              else (Inr (empty_frame [''index'', ''NULL_'' @ field @ ''_INT'']), problems)))"

subsection \<open>Date format\<close>

text \<open>
  \<^verbatim>\<open>pd.to_datetime(df[field], format='%Y-%m-%d %H:%M:%S', errors='coerce').isna()\<close>. Which
  texts the library accepts under the format is the library's matter and differs between its
  versions, so it is a parameter \<open>parses\<close> of the check. Whatever the parameter, a missing
  value becomes \<^verbatim>\<open>NaT\<close>, and so does a number or a boolean: its text has not the shape of
  the format.
\<close>

fun isna_datetime :: "(string \<Rightarrow> bool) \<Rightarrow> val \<Rightarrow> bool" where
  "isna_datetime parses (StrV s) = (\<not> parses s)"
| "isna_datetime parses x = True"

definition validate_date_format ::
    "(string \<Rightarrow> bool) \<Rightarrow> table \<Rightarrow> string \<Rightarrow> registry \<Rightarrow> frame result" where
  "validate_date_format parses df field problems =
     (case column df field of
        Inl e \<Rightarrow> (Inl e, problems)
      | Inr col \<Rightarrow>
          (let invalid_format_mask = map (isna_datetime parses \<circ> snd) col
           in if mask_any invalid_format_mask
              then (Inr (indexed_flag_frame (index_at invalid_format_mask col)
                           (''INVALID_'' @ field @ ''_FORMAT'')), problems)
              else (Inr (empty_frame [''index'', ''INVALID_'' @ field @ ''_FORMAT'']), problems)))"

subsection \<open>Uniqueness\<close>

text \<open>
  \<^verbatim>\<open>duplicated(keep=False)\<close> marks every value that occurs more than once. The library compares
  with Python's equality, under which numbers are equal by value whatever their type, and it
  takes two missing values for equal.
\<close>

fun num_of :: "val \<Rightarrow> rat option" where
  "num_of (BoolV b) = Some (if b then 1 else 0)"
| "num_of (IntV i) = Some (of_int i)"
| "num_of (FloatV r) = Some r"
| "num_of x = None"

definition val_eq :: "val \<Rightarrow> val \<Rightarrow> bool" where
  "val_eq a b =
     (case (num_of a, num_of b) of
        (Some x, Some y) \<Rightarrow> x = y
      | (None, None) \<Rightarrow> a = b
      | _ \<Rightarrow> False)"

definition duplicated :: "val list \<Rightarrow> bool list" where
  "duplicated vs = map (\<lambda>v. 1 < length (filter (val_eq v) vs)) vs"

text \<open>
  \<^verbatim>\<open>groupby(field)\<close> drops the rows whose key is missing and sorts the groups by key: numbers
  by value, texts by their characters, numbers before texts.
\<close>

fun str_le :: "string \<Rightarrow> string \<Rightarrow> bool" where
  "str_le [] t = True"
| "str_le (c # s) [] = False"
| "str_le (c # s) (d # t) = (if c = d then str_le s t else (of_char c :: nat) < of_char d)"

definition val_le :: "val \<Rightarrow> val \<Rightarrow> bool" where
  "val_le a b =
     (case (num_of a, num_of b) of
        (Some x, Some y) \<Rightarrow> x \<le> y
      | (Some x, None) \<Rightarrow> True
      | (None, Some y) \<Rightarrow> False
      | (None, None) \<Rightarrow>
          (case (a, b) of (StrV s, StrV t) \<Rightarrow> str_le s t | (x, y) \<Rightarrow> y = Null))"

fun insort_by :: "('a \<Rightarrow> 'a \<Rightarrow> bool) \<Rightarrow> 'a \<Rightarrow> 'a list \<Rightarrow> 'a list" where
  "insort_by le x [] = [x]"
| "insort_by le x (y # ys) = (if le x y then x # y # ys else y # insort_by le x ys)"

definition sort_by :: "('a \<Rightarrow> 'a \<Rightarrow> bool) \<Rightarrow> 'a list \<Rightarrow> 'a list" where
  "sort_by le xs = foldr (insort_by le) xs []"

fun group_keys :: "val list \<Rightarrow> val list" where
  "group_keys [] = []"
| "group_keys (k # ks) = k # group_keys (filter (\<lambda>x. \<not> val_eq k x) ks)"

text \<open>\<^verbatim>\<open>groupby(field)['index'].apply(list)\<close> on pairs of a key and an \<^verbatim>\<open>index\<close> entry.\<close>

definition groupby_lists :: "(val \<times> val) list \<Rightarrow> (val \<times> val list) list" where
  "groupby_lists ps =
     map (\<lambda>k. (k, map snd (filter (\<lambda>(v, i). val_eq k v) ps)))
       (sort_by val_le (group_keys (filter (\<lambda>v. \<not> isnull v) (map fst ps))))"

text \<open>
  \<^verbatim>\<open>df[duplicates_mask].reset_index()\<close> puts the row labels in a new column: \<^verbatim>\<open>index\<close>, or
  \<^verbatim>\<open>level_0\<close> when the table has a column \<^verbatim>\<open>index\<close> already (a \<^verbatim>\<open>ValueError\<close> when it has
  both). The column \<^verbatim>\<open>index\<close> of the outcome, which the grouping reads, is then the table's
  own. The result is that column, for every row of the table.
\<close>

definition reset_index_column :: "table \<Rightarrow> py_error + val list" where
  "reset_index_column df =
     (if ''index'' \<in> set (tcolumns df)
      then (if ''level_0'' \<in> set (tcolumns df) then Inl ValueError
            else Inr (map (\<lambda>(i, cs). cell_at cs (first_pos ''index'' (tcolumns df))) (trows df)))
      else Inr (map (\<lambda>(i, cs). IntV i) (trows df)))"

text \<open>\<^verbatim>\<open>x.pop(0)\<close> on the list of a group: the first entry, and the list without it.\<close>

fun pop0 :: "val \<times> val list \<Rightarrow> (val \<times> val \<times> val list) option" where
  "pop0 (k, []) = None"
| "pop0 (k, i # ids) = Some (i, k, ids)"

text \<open>
  The second \<^verbatim>\<open>reset_index()\<close>, on the grouped series named \<^verbatim>\<open>index\<close>, inserts the key column
  under the name of the field; that is a \<^verbatim>\<open>ValueError\<close> when the field is itself \<^verbatim>\<open>index\<close>.
  The registry is written last, so an exception leaves it as it was.
\<close>

definition validate_unique_fields :: "table \<Rightarrow> string \<Rightarrow> registry \<Rightarrow> frame result" where
  "validate_unique_fields df field problems =
     (case column df field of
        Inl e \<Rightarrow> (Inl e, problems)
      | Inr col \<Rightarrow>
          (let duplicates_mask = duplicated (map snd col)
           in if mask_any duplicates_mask
              then (case reset_index_column df of
                      Inl e \<Rightarrow> (Inl e, problems)
                    | Inr idx \<Rightarrow>
                        if field = ''index'' then (Inl ValueError, problems)
                        else (case those (map pop0 (groupby_lists
                                     (map snd (filter fst (zip duplicates_mask (zip (map snd col) idx)))))) of
                                None \<Rightarrow> (Inl IndexError, problems)
                              | Some rs \<Rightarrow>
                                  (Inr \<lparr>index_name = None, range_columns = False,
                                        columns = [''index'', ''Repeat_'' @ field, ''repeated_indexes''],
                                        rows = map (\<lambda>(n, (i, k, ids)).
                                                   (Val (IntV (int n)), [Val i, Val k, ListV ids]))
                                                 (enumerate 0 rs)\<rparr>,
                                   set_percentage_error field
                                     (error_rate (mask_percentage duplicates_mask)) problems)))
              else (Inr (empty_frame [''index'', ''Repeat_'' @ field, ''repeated_indexes'']),
                    set_percentage_error field (error_rate (PyInt 0)) problems)))"

subsection \<open>Country codes\<close>

definition country_list :: "string list" where
  "country_list = [''AR'', ''BR'', ''CL'', ''CO'', ''CR'', ''CU'', ''DO'', ''EC'', ''SV'', ''GT'', ''HT'',
                   ''HN'', ''JM'', ''MX'', ''NI'', ''PA'', ''PY'', ''PE'', ''PR'', ''UY'', ''VE'']"

text \<open>\<^verbatim>\<open>~df[field].isin(country_list) & df[field].notnull()\<close> at one value.\<close>

definition non_matching :: "val \<Rightarrow> bool" where
  "non_matching x = (x \<notin> set (map StrV country_list) \<and> \<not> isnull x)"

text \<open>
  \<^verbatim>\<open>non_matching_values\<close> is not a mask but the frame of the selected rows, with every column
  of the table, and the check indexes \<^verbatim>\<open>df.index\<close> with that frame. An index takes a frame
  for an array of positions: the two-dimensional array of the frame's cells. Unless every
  column of the table holds integers only, the array is not an integer array and the library
  raises \<^verbatim>\<open>IndexError\<close>. If all columns are integer columns, the cells of the selected rows
  are read as positions: \<^verbatim>\<open>IndexError\<close> when one is out of range, and otherwise a
  \<^verbatim>\<open>ValueError\<close>, because the outcome would have two dimensions. So whenever a row is
  selected the statement raises, with an exception that is not a \<^verbatim>\<open>KeyError\<close>, and the lines
  after it (the frame, the error rate) are never reached.
\<close>

fun is_IntV :: "val \<Rightarrow> bool" where
  "is_IntV (IntV i) = True"
| "is_IntV x = False"

definition row_cells :: "table \<Rightarrow> val list \<Rightarrow> val list" where
  "row_cells df cs = map (cell_at cs) [0..<length (tcolumns df)]"

fun valid_position :: "nat \<Rightarrow> val \<Rightarrow> bool" where
  "valid_position n (IntV i) = (- int n \<le> i \<and> i < int n)"
| "valid_position n x = False"

definition index_getitem_frame :: "table \<Rightarrow> (int \<times> val list) list \<Rightarrow> py_error" where
  "index_getitem_frame df selected =
     (if list_all (\<lambda>(i, cs). list_all is_IntV (row_cells df cs)) (trows df)
         \<and> list_all (\<lambda>(i, cs). list_all (valid_position (length (trows df))) (row_cells df cs)) selected
      then ValueError else IndexError)"

definition validate_country_codes :: "table \<Rightarrow> string \<Rightarrow> registry \<Rightarrow> frame result" where
  "validate_country_codes df field problems =
     (case column df field of
        Inl e \<Rightarrow> (Inl e, problems)
      | Inr col \<Rightarrow>
          (let non_matching_values =
                 map snd (filter (non_matching \<circ> snd \<circ> fst) (zip col (trows df)))
           in if non_matching_values \<noteq> []
              then (Inl (index_getitem_frame df non_matching_values), problems)
              else (Inr (empty_frame [''index'', ''NOT_IN_'' @ field @ ''_LIST'']), problems)))"

section \<open>The report percentage\<close>


section \<open>The rule dispatcher\<close>

text \<open>A rule set is a JSON object; a JSON value is true or false for \<^verbatim>\<open>and\<close> as Python
  has it.\<close>

datatype json =
    JNull
  | JBool bool
  | JInt int
  | JFloat rat
  | JStr string
  | JArr "json list"
  | JObj "(string \<times> json) list"

fun truthy :: "json \<Rightarrow> bool" where
  "truthy JNull = False"
| "truthy (JBool b) = b"
| "truthy (JInt i) = (i \<noteq> 0)"
| "truthy (JFloat r) = (r \<noteq> 0)"
| "truthy (JStr s) = (s \<noteq> [])"
| "truthy (JArr xs) = (xs \<noteq> [])"
| "truthy (JObj kvs) = (kvs \<noteq> [])"

type_synonym rules = "(string \<times> json) list"

text \<open>\<^verbatim>\<open>key in validations and validations[key]\<close>.\<close>

definition enabled :: "rules \<Rightarrow> string \<Rightarrow> bool" where
  "enabled validations key = (case map_of validations key of None \<Rightarrow> False | Some v \<Rightarrow> truthy v)"

text \<open>\<^verbatim>\<open>type in validations\<close> and \<^verbatim>\<open>validations[type] == t\<close>.\<close>

definition type_is :: "rules \<Rightarrow> string \<Rightarrow> bool" where
  "type_is validations t = (map_of validations ''type'' = Some (JStr t))"

text \<open>\<^verbatim>\<open>list_df.append(check(df, field))\<close> inside the \<^verbatim>\<open>try\<close>: once a check has raised, the
  statements after it are skipped.\<close>

definition append_check ::
    "(registry \<Rightarrow> frame result) \<Rightarrow> (frame list) result \<Rightarrow> (frame list) result" where
  "append_check check acc =
     (case acc of
        (Inl e, problems) \<Rightarrow> (Inl e, problems)
      | (Inr list_df, problems) \<Rightarrow>
          (case check problems of
             (Inl e, problems') \<Rightarrow> (Inl e, problems')
           | (Inr new_df, problems') \<Rightarrow> (Inr (list_df @ [new_df]), problems')))"

definition column_not_found :: "string \<Rightarrow> py_error" where
  "column_not_found field =
     ColumnNotFoundError (''The DataFrame does not have the expected column: '' @ field)"

text \<open>\<^verbatim>\<open>except KeyError: raise ColumnNotFoundError(...)\<close>; any other exception passes.\<close>

fun except_KeyError :: "string \<Rightarrow> 'a result \<Rightarrow> 'a result" where
  "except_KeyError field (Inl (KeyError k), problems) = (Inl (column_not_found field), problems)"
| "except_KeyError field r = r"

definition validate_field_dic ::
    "(string \<Rightarrow> bool) \<Rightarrow> table \<Rightarrow> string \<Rightarrow> rules \<Rightarrow> registry \<Rightarrow> (frame list) result" where
  "validate_field_dic parses df field validations problems =
     (let r0 = (Inr [], problems);
          r1 = (if enabled validations ''none''
                then append_check (validate_none_fields df field) r0 else r0);
          r2 = (if enabled validations ''unique''
                then append_check (validate_unique_fields df field) r1 else r1);
          r3 = (if type_is validations ''int''
                then append_check (validate_int_fields df field) r2 else r2);
          r4 = (if type_is validations ''string''
                then append_check (validate_string_fields df field) r3 else r3);
          r5 = (if type_is validations ''date''
                then append_check (validate_date_format parses df field) r4 else r4);
          r6 = (if type_is validations ''country_code''
                then append_check (validate_country_codes df field) r5 else r5)
      in except_KeyError field r6)"

section \<open>The merge engine\<close>

text \<open>
  \<^verbatim>\<open>pd.merge(left, right, on=['index'], how='outer')\<close>. The key \<^verbatim>\<open>index\<close> of a frame is its
  column of that name, or its index when that is so named; a frame with neither has no key
  (\<^verbatim>\<open>KeyError\<close>), one with both or with two such columns an ambiguous one (\<^verbatim>\<open>ValueError\<close>).
  \<open>key_place\<close> gives the position of the key column, or \<open>None\<close> for the index.
\<close>

definition key_place :: "frame \<Rightarrow> py_error + nat option" where
  "key_place f =
     (let n = count_list (columns f) ''index''
      in if n = 0
         then (if index_name f = Some ''index'' then Inr None else Inl (KeyError ''index''))
         else if n = 1 \<and> index_name f \<noteq> Some ''index''
              then Inr (Some (first_pos ''index'' (columns f)))
              else Inl ValueError)"

definition remove_at :: "nat \<Rightarrow> 'a list \<Rightarrow> 'a list" where
  "remove_at p xs = take p xs @ drop (Suc p) xs"

definition insert_at :: "nat \<Rightarrow> 'a \<Rightarrow> 'a list \<Rightarrow> 'a list" where
  "insert_at p x xs = take p xs @ x # drop p xs"

fun row_key :: "nat option \<Rightarrow> cell \<times> cell list \<Rightarrow> cell" where
  "row_key None (label, cells) = label"
| "row_key (Some p) (label, cells) = (if p < length cells then cells ! p else Val Null)"

fun row_data :: "nat option \<Rightarrow> cell \<times> cell list \<Rightarrow> cell list" where
  "row_data None (label, cells) = cells"
| "row_data (Some p) (label, cells) = remove_at p cells"

fun data_columns :: "nat option \<Rightarrow> string list \<Rightarrow> string list" where
  "data_columns None cols = cols"
| "data_columns (Some p) cols = remove_at p cols"

text \<open>The keys of a frame, and its rows as pairs of a key and the cells of the other columns.\<close>

definition keyed_rows :: "nat option \<Rightarrow> frame \<Rightarrow> (cell \<times> cell list) list" where
  "keyed_rows kp f = map (\<lambda>r. (row_key kp r, row_data kp r)) (rows f)"

text \<open>Keys are matched as values are compared: numbers by value, missing with missing.\<close>

fun cell_eq :: "cell \<Rightarrow> cell \<Rightarrow> bool" where
  "cell_eq (Val a) (Val b) = val_eq a b"
| "cell_eq x y = (x = y)"

text \<open>
  A full outer join on the key: every left row with each right row of its key, or with
  missing values when there is none; then the right rows whose key no left row has, under
  missing values for the left columns. The outcome is sorted by key, as the library
  documents for \<^verbatim>\<open>how='outer'\<close>; the sort is stable.
\<close>

definition outer_join ::
    "(cell \<times> cell list) list \<Rightarrow> (cell \<times> cell list) list \<Rightarrow> nat \<Rightarrow> nat \<Rightarrow> (cell \<times> cell list) list" where
  "outer_join ls rs nl nr =
     concat (map (\<lambda>(k, ld).
                (case filter (\<lambda>(k', rd). cell_eq k k') rs of
                   [] \<Rightarrow> [(k, ld @ replicate nr (Val Null))]
                 | ms \<Rightarrow> map (\<lambda>(k', rd). (k, ld @ rd)) ms)) ls)
     @ map (\<lambda>(k, rd). (k, replicate nl (Val Null) @ rd))
         (filter (\<lambda>(k, rd). \<not> list_ex (\<lambda>(k', ld). cell_eq k' k) ls) rs)"

fun cell_le :: "cell \<Rightarrow> cell \<Rightarrow> bool" where
  "cell_le (Val a) (Val b) = val_le a b"
| "cell_le x y = True"

fun is_ListV :: "cell \<Rightarrow> bool" where
  "is_ListV (ListV xs) = True"
| "is_ListV x = False"

text \<open>
  Data columns that both frames name get the suffixes \<^verbatim>\<open>_x\<close> and \<^verbatim>\<open>_y\<close>. The library refuses
  (\<^verbatim>\<open>MergeError\<close>, a \<^verbatim>\<open>ValueError\<close>) a suffix that makes a name of one frame equal to an earlier
  name of the same frame when the names were different before.
\<close>

definition suffixed :: "string \<Rightarrow> string list \<Rightarrow> string list \<Rightarrow> string list" where
  "suffixed sfx overlap cols = map (\<lambda>c. if c \<in> set overlap then c @ sfx else c) cols"

fun fresh_dups :: "(string \<times> string) list \<Rightarrow> string list \<Rightarrow> string list \<Rightarrow> bool" where
  "fresh_dups [] seen_old seen_new = False"
| "fresh_dups ((old, new) # ps) seen_old seen_new =
     (if new \<in> set seen_new \<and> old \<notin> set seen_old then True
      else fresh_dups ps (old # seen_old) (new # seen_new))"

text \<open>
  The place of the key in the outcome. It stays the index only when it is the index of both
  frames. Otherwise it is a column: where the left frame has it, or first when the left
  frame has it as index; when the left frame has no rows the library keeps the right frame's
  key instead, after the left frame's columns. The index is then the positions.
\<close>

definition assemble ::
    "nat option \<Rightarrow> nat option \<Rightarrow> bool \<Rightarrow> nat \<Rightarrow> string list \<Rightarrow> (cell \<times> cell list) list \<Rightarrow> frame" where
  "assemble kl kr left_empty nl labels joined =
     (if kl = None \<and> kr = None
      then \<lparr>index_name = Some ''index'', range_columns = False, columns = labels, rows = joined\<rparr>
      else (let p = (if left_empty then (case kr of None \<Rightarrow> 0 | Some q \<Rightarrow> nl + q)
                     else (case kl of None \<Rightarrow> 0 | Some q \<Rightarrow> q))
            in \<lparr>index_name = None, range_columns = False,
                columns = insert_at p ''index'' labels,
                rows = map (\<lambda>(n, (k, d)). (Val (IntV (int n)), insert_at p k d))
                         (enumerate 0 joined)\<rparr>))"

definition merge_outer :: "frame \<Rightarrow> frame \<Rightarrow> py_error + frame" where
  "merge_outer left right =
     (case key_place left of
        Inl e \<Rightarrow> Inl e
      | Inr kl \<Rightarrow>
          (case key_place right of
             Inl e \<Rightarrow> Inl e
           | Inr kr \<Rightarrow>
               (let ls = keyed_rows kl left; rs = keyed_rows kr right;
                    lcols = data_columns kl (columns left);
                    rcols = data_columns kr (columns right);
                    overlap = filter (\<lambda>c. c \<in> set rcols) lcols;
                    llabels = suffixed ''_x'' overlap lcols;
                    rlabels = suffixed ''_y'' overlap rcols
                in if list_ex is_ListV (map fst (ls @ rs)) then Inl TypeError
                   else if fresh_dups (zip lcols llabels) [] [] \<or> fresh_dups (zip rcols rlabels) [] []
                   then Inl ValueError
                   else Inr (assemble kl kr (rows left = []) (length lcols) (llabels @ rlabels)
                               (sort_by (\<lambda>a b. cell_le (fst a) (fst b))
                                  (outer_join ls rs (length lcols) (length rcols)))))))"

text \<open>\<^verbatim>\<open>reduce(lambda left, right: pd.merge(...), list_df)\<close> from its first frame on.\<close>

fun reduce_merge :: "frame \<Rightarrow> frame list \<Rightarrow> py_error + frame" where
  "reduce_merge acc [] = Inr acc"
| "reduce_merge acc (f # fs) =
     (case merge_outer acc f of Inl e \<Rightarrow> Inl e | Inr m \<Rightarrow> reduce_merge m fs)"

section \<open>The validation entry point\<close>

text \<open>The configuration, as \<^verbatim>\<open>extract_json_config\<close> reads it: the path and delimiter of the
  data file, and under \<^verbatim>\<open>data_valid\<close> the rule set of each field, in the order of the file.\<close>

record data_config =
  route_file :: string
  delimiter :: string
  data_valid :: "(string \<times> rules) list"

text \<open>The loop \<^verbatim>\<open>for field, validations in ...: list_df.extend(validate_field_dic(...))\<close>.\<close>

fun dispatch_all ::
    "(string \<Rightarrow> bool) \<Rightarrow> table \<Rightarrow> (string \<times> rules) list \<Rightarrow> frame list \<Rightarrow> registry
      \<Rightarrow> (frame list) result" where
  "dispatch_all parses df [] list_df problems = (Inr list_df, problems)"
| "dispatch_all parses df ((field, validations) # items) list_df problems =
     (case validate_field_dic parses df field validations problems of
        (Inl e, problems') \<Rightarrow> (Inl e, problems')
      | (Inr fs, problems') \<Rightarrow> dispatch_all parses df items (list_df @ fs) problems')"

text \<open>\<^verbatim>\<open>pd.DataFrame()\<close>: no rows, no columns; in pandas 2 its column axis is an empty integer
  range, not an empty axis of names.\<close>

definition DataFrame :: frame where
  "DataFrame = \<lparr>index_name = None, range_columns = True, columns = [], rows = []\<rparr>"

text \<open>\<^verbatim>\<open>str.upper()\<close>, on the letters of ASCII.\<close>

definition upper_char :: "char \<Rightarrow> char" where
  "upper_char c =
     (case map_of (zip ''abcdefghijklmnopqrstuvwxyz'' ''ABCDEFGHIJKLMNOPQRSTUVWXYZ'') c of
        None \<Rightarrow> c
      | Some u \<Rightarrow> u)"

text \<open>
  \<^verbatim>\<open>merged_df.columns = merged_df.columns.str.upper()\<close>. The \<^verbatim>\<open>.str\<close> accessor is there for an
  axis of names, also an empty one; on an integer axis the library raises
  \<^verbatim>\<open>AttributeError\<close> (``Can only use .str accessor with string values'').
\<close>

definition columns_str_upper :: "frame \<Rightarrow> py_error + frame" where
  "columns_str_upper f =
     (if range_columns f then Inl AttributeError
      else Inr (f\<lparr>columns := map (map upper_char) (columns f)\<rparr>))"

definition validate_fields_from_json ::
    "(string \<Rightarrow> bool) \<Rightarrow> table \<Rightarrow> data_config \<Rightarrow> registry \<Rightarrow> frame result" where
  "validate_fields_from_json parses df config problems =
     (case dispatch_all parses df (data_valid config) [] problems of
        (Inl e, problems') \<Rightarrow> (Inl e, problems')
      | (Inr list_df, problems') \<Rightarrow>
          (case (case list_df of [] \<Rightarrow> Inr DataFrame | f # fs \<Rightarrow> reduce_merge f fs) of
             Inl e \<Rightarrow> (Inl e, problems')
           | Inr merged_df \<Rightarrow> (columns_str_upper merged_df, problems')))"

section \<open>Notions of the specification\<close>


text \<open>A rule set selects a check when it enables presence or uniqueness or names one of the
  four value types.\<close>

definition selects_check :: "rules \<Rightarrow> bool" where
  "selects_check validations =
     (enabled validations ''none'' \<or> enabled validations ''unique'' \<or> type_is validations ''int''
      \<or> type_is validations ''string'' \<or> type_is validations ''date''
      \<or> type_is validations ''country_code'')"

text \<open>The type check that a value type selects.\<close>

definition type_check ::
    "(string \<Rightarrow> bool) \<Rightarrow> string \<Rightarrow> table \<Rightarrow> string \<Rightarrow> registry \<Rightarrow> frame result" where
  "type_check parses t =
     (if t = ''int'' then validate_int_fields
      else if t = ''string'' then validate_string_fields
      else if t = ''date'' then validate_date_format parses
      else validate_country_codes)"

text \<open>The row identities of a frame (its keys), and of one of its rows the key and the cells
  of the flag columns (all columns but the key). They are read where the merge reads them.\<close>

definition frame_keys :: "frame \<Rightarrow> cell list" where
  "frame_keys f = (case key_place f of Inl e \<Rightarrow> [] | Inr kp \<Rightarrow> map (row_key kp) (rows f))"





text \<open>
  The shape of a Finding Table, as the six checks build it: a key; rows as wide as the
  header; keys that are values, not lists; and as flag columns either one flag, or the two
  columns of the uniqueness check.
\<close>

definition finding_table :: "frame \<Rightarrow> bool" where
  "finding_table f =
     (case key_place f of
        Inl e \<Rightarrow> False
      | Inr kp \<Rightarrow>
          list_all (\<lambda>r. length (snd r) = length (columns f)) (rows f)
          \<and> list_all (\<lambda>r. \<not> is_ListV (row_key kp r)) (rows f)
          \<and> (case data_columns kp (columns f) of
                [flag] \<Rightarrow> True
              | [rep, ri] \<Rightarrow> take 7 rep = ''Repeat_'' \<and> ri = ''repeated_indexes''
              | _ \<Rightarrow> False))"

section \<open>Example inputs\<close>

text \<open>The tables of the two scenarios of the specification; the row labels start at 2.\<close>

definition codes_table :: table where
  "codes_table = \<lparr>tcolumns = [''code''],
                  trows = [(2, [StrV ''AR'']), (3, [StrV ''ZZ'']), (4, [Null])]\<rparr>"

definition emails_table :: table where
  "emails_table = \<lparr>tcolumns = [''email''],
                   trows = [(2, [StrV ''a@x.com'']), (3, [StrV ''a@x.com'']), (4, [StrV ''b@x.com''])]\<rparr>"

definition config_of :: "(string \<times> rules) list \<Rightarrow> data_config" where
  "config_of dv = \<lparr>route_file = ''data.csv'', delimiter = '','', data_valid = dv\<rparr>"

text \<open>A stand-in for the library's date parser in the examples: it accepts one text.\<close>

definition parses_example :: "string \<Rightarrow> bool" where
  "parses_example s = (s = ''2024-01-31 10:00:00'')"

section \<open>Unfolding rules for concrete inputs\<close>

lemmas text_defs = error_rate_def int_str_def nat_str.simps digit_char_def frac4_def

lemmas round_defs = mask_percentage_def count_true_def py_round4_def half_even_div_def Let_def


lemmas table_defs = column_def cell_at_def codes_table_def emails_table_def config_of_def

lemmas check_defs = validate_none_fields_def validate_unique_fields_def validate_int_fields_def
  validate_string_fields_def validate_date_format_def validate_country_codes_def
  isnull_def mask_any_def set_percentage_error_def duplicated_def val_eq_def val_le_def sort_by_def
  groupby_lists_def reset_index_column_def country_list_def non_matching_def row_cells_def
  index_getitem_frame_def

lemmas dispatch_defs = validate_field_dic_def enabled_def type_is_def append_check_def
  column_not_found_def


lemmas entry_defs = validate_fields_from_json_def DataFrame_def upper_char_def
  columns_str_upper_def

section \<open>The presence check on a column without missing values\<close>

lemma error_rate_zero: "error_rate (PyInt 0) = ''Error_rate: 0%''"
  by (simp add: text_defs)

text \<open>
  Claim C3, as the program has it. For every table with at least one row and no missing
  value in the field, the presence check returns the empty frame with the columns
  \<^verbatim>\<open>index\<close> and \<^verbatim>\<open>NONE_<field>_VALUE\<close>, and writes the registry entry of the field. The
  percentage is still the integer 0 it was initialised with, so the text written is
  \<^verbatim>\<open>Error_rate: 0%\<close>, not \<^verbatim>\<open>Error_rate: 0.0%\<close>.
\<close>

theorem presence_check_no_nulls:
  assumes "column df field = Inr col" and "trows df \<noteq> []" and "Null \<notin> set (map snd col)"
  shows "validate_none_fields df field problems =
           (Inr (empty_frame [''index'', ''NONE_'' @ field @ ''_VALUE'']),
            problems(field \<mapsto> ''Error_rate: 0%''))"
proof -
  have "\<not> mask_any (map (isnull \<circ> snd) col)"
    using assms(3) by (force simp: mask_any_def isnull_def)
  then show ?thesis
    using assms(1) by (simp add: validate_none_fields_def set_percentage_error_def error_rate_zero)
qed

theorem presence_check_no_nulls_witness:
  "column emails_table ''email'' =
     Inr [(2, StrV ''a@x.com''), (3, StrV ''a@x.com''), (4, StrV ''b@x.com'')]
   \<and> trows emails_table \<noteq> []
   \<and> validate_none_fields emails_table ''email'' Map.empty =
           (Inr (empty_frame [''index'', ''NONE_email_VALUE'']),
            [''email'' \<mapsto> ''Error_rate: 0%''])"
proof -
  have c: "column emails_table ''email'' =
             Inr [(2, StrV ''a@x.com''), (3, StrV ''a@x.com''), (4, StrV ''b@x.com'')]"
    by (simp add: table_defs)
  have r: "trows emails_table \<noteq> []"
    by (simp add: table_defs)
  show ?thesis
    using c r presence_check_no_nulls [OF c r, of Map.empty] by simp
qed

text \<open>
  The claim as the specification words it fails on the table of three e-mail addresses: the
  table has rows and no missing value, and the entry written is not \<^verbatim>\<open>Error_rate: 0.0%\<close>.
\<close>

theorem presence_check_zero_rate_counterexample:
  "trows emails_table \<noteq> []
   \<and> column emails_table ''email'' =
         Inr [(2, StrV ''a@x.com''), (3, StrV ''a@x.com''), (4, StrV ''b@x.com'')]
   \<and> snd (validate_none_fields emails_table ''email'' Map.empty) ''email'' = Some ''Error_rate: 0%''
   \<and> snd (validate_none_fields emails_table ''email'' Map.empty) ''email'' \<noteq> Some ''Error_rate: 0.0%''"
  by (simp add: table_defs check_defs text_defs)

section \<open>The report percentage\<close>


section \<open>The date-format check and the registry\<close>

text \<open>
  Claim C9. For every table and every field, the date-format check leaves the error-rate
  registry as it was: whether rows are flagged or not, and also when the column is missing.
\<close>

theorem date_check_keeps_registry:
  "snd (validate_date_format parses df field problems) = problems"
  by (simp add: validate_date_format_def Let_def split: sum.splits)

section \<open>Dispatching on a missing column\<close>

lemma append_check_Inl [simp]: "append_check check (Inl e, p) = (Inl e, p)"
  by (simp add: append_check_def)

lemma append_check_Inr:
  "check p = (Inr f, p') \<Longrightarrow> append_check check (Inr fs, p) = (Inr (fs @ [f]), p')"
  by (simp add: append_check_def)

lemma append_check_raise:
  "check p = (Inl e, p') \<Longrightarrow> append_check check (Inr fs, p) = (Inl e, p')"
  by (simp add: append_check_def)

lemma checks_missing_column:
  assumes "field \<notin> set (tcolumns df)"
  shows "validate_none_fields df field p = (Inl (KeyError field), p)"
    and "validate_unique_fields df field p = (Inl (KeyError field), p)"
    and "validate_int_fields df field p = (Inl (KeyError field), p)"
    and "validate_string_fields df field p = (Inl (KeyError field), p)"
    and "validate_date_format parses df field p = (Inl (KeyError field), p)"
    and "validate_country_codes df field p = (Inl (KeyError field), p)"
  using assms
  by (simp_all add: column_def validate_none_fields_def validate_unique_fields_def
      validate_int_fields_def validate_string_fields_def validate_date_format_def
      validate_country_codes_def)

text \<open>
  Claim C6. For every table and every field that is not a column of it, and every rule set
  that selects a check (presence, uniqueness or one of the four type checks), the dispatcher
  raises \<^verbatim>\<open>ColumnNotFoundError\<close> with a message that ends in the name of the field. It returns
  no list of frames, and the registry is as it was.
\<close>

theorem dispatch_missing_column:
  assumes "field \<notin> set (tcolumns df)" and "selects_check validations"
  shows "validate_field_dic parses df field validations problems =
           (Inl (ColumnNotFoundError (''The DataFrame does not have the expected column: '' @ field)),
            problems)"
  using assms(2)
  unfolding validate_field_dic_def selects_check_def Let_def
  by (auto simp: checks_missing_column [OF assms(1)] append_check_raise column_not_found_def)

theorem dispatch_missing_column_witness:
  "''phone'' \<notin> set (tcolumns emails_table)
   \<and> selects_check [(''none'', JBool True), (''type'', JStr ''date'')]
   \<and> validate_field_dic parses_example emails_table ''phone''
         [(''none'', JBool True), (''type'', JStr ''date'')] Map.empty =
       (Inl (ColumnNotFoundError ''The DataFrame does not have the expected column: phone''),
        Map.empty)"
proof -
  have a: "''phone'' \<notin> set (tcolumns emails_table)"
    by (simp add: table_defs)
  have b: "selects_check [(''none'', JBool True), (''type'', JStr ''date'')]"
    by (simp add: selects_check_def enabled_def type_is_def)
  show ?thesis
    using a b dispatch_missing_column [OF a b, of parses_example Map.empty] by simp
qed

section \<open>The order of dispatch\<close>

lemma type_is_unique: "type_is v t \<Longrightarrow> type_is v t' = (t' = t)"
  by (auto simp: type_is_def)

text \<open>
  Claim C7. For a rule set that enables presence and uniqueness and names one of the four
  value types, the dispatcher runs the presence check on the registry it was given, the
  uniqueness check on the registry the presence check left, and then the one type check
  that the value type selects, on the registry the uniqueness check left. When the three
  return frames, the dispatcher returns exactly these three frames in that order, empty
  frames included, with the registry the type check left.
\<close>

theorem dispatch_order:
  assumes "enabled validations ''none''" and "enabled validations ''unique''"
    and "type_is validations t"
    and "t \<in> {''int'', ''string'', ''date'', ''country_code''}"
    and "validate_none_fields df field problems = (Inr a, p1)"
    and "validate_unique_fields df field p1 = (Inr b, p2)"
    and "type_check parses t df field p2 = (Inr c, p3)"
  shows "validate_field_dic parses df field validations problems = (Inr [a, b, c], p3)"
proof -
  note sel = type_is_unique [OF assms(3)]
  note run = validate_field_dic_def Let_def append_check_def assms(1,2,5,6)
  consider "t = ''int''" | "t = ''string''" | "t = ''date''" | "t = ''country_code''"
    using assms(4) by auto
  then show ?thesis
  proof cases
    case 1
    then have "validate_int_fields df field p2 = (Inr c, p3)"
      using assms(7) by (simp add: type_check_def)
    then show ?thesis
      using 1 by (simp add: run sel)
  next
    case 2
    then have "validate_string_fields df field p2 = (Inr c, p3)"
      using assms(7) by (simp add: type_check_def)
    then show ?thesis
      using 2 by (simp add: run sel)
  next
    case 3
    then have "validate_date_format parses df field p2 = (Inr c, p3)"
      using assms(7) by (simp add: type_check_def)
    then show ?thesis
      using 3 by (simp add: run sel)
  next
    case 4
    then have "validate_country_codes df field p2 = (Inr c, p3)"
      using assms(7) by (simp add: type_check_def)
    then show ?thesis
      using 4 by (simp add: run sel)
  qed
qed

theorem dispatch_order_witness:
  "enabled [(''none'', JBool True), (''unique'', JBool True), (''type'', JStr ''string'')] ''none''
   \<and> enabled [(''none'', JBool True), (''unique'', JBool True), (''type'', JStr ''string'')] ''unique''
   \<and> type_is [(''none'', JBool True), (''unique'', JBool True), (''type'', JStr ''string'')] ''string''
   \<and> validate_field_dic parses_example emails_table ''email''
        [(''none'', JBool True), (''unique'', JBool True), (''type'', JStr ''string'')] Map.empty =
       (Inr [empty_frame [''index'', ''NONE_email_VALUE''],
             \<lparr>index_name = None, range_columns = False,
              columns = [''index'', ''Repeat_email'', ''repeated_indexes''],
              rows = [(Val (IntV 0), [Val (IntV 2), Val (StrV ''a@x.com''), ListV [IntV 3]])]\<rparr>,
             empty_frame [''index'', ''NULL_email_STRING'']],
        [''email'' \<mapsto> ''Error_rate: 66.6667%''])"
proof -
  let ?v = "[(''none'', JBool True), (''unique'', JBool True), (''type'', JStr ''string'')]"
  have e1: "enabled ?v ''none''" and e2: "enabled ?v ''unique''" and e3: "type_is ?v ''string''"
    by (simp_all add: enabled_def type_is_def)
  have t: "''string'' \<in> {''int'', ''string'', ''date'', ''country_code''}"
    by simp
  have a: "validate_none_fields emails_table ''email'' Map.empty =
             (Inr (empty_frame [''index'', ''NONE_email_VALUE'']), [''email'' \<mapsto> ''Error_rate: 0%''])"
    by (simp add: table_defs check_defs text_defs)
  have b: "validate_unique_fields emails_table ''email'' [''email'' \<mapsto> ''Error_rate: 0%''] =
             (Inr \<lparr>index_name = None, range_columns = False,
              columns = [''index'', ''Repeat_email'', ''repeated_indexes''],
              rows = [(Val (IntV 0), [Val (IntV 2), Val (StrV ''a@x.com''), ListV [IntV 3]])]\<rparr>,
              [''email'' \<mapsto> ''Error_rate: 66.6667%''])"
    by (simp add: table_defs check_defs text_defs round_defs)
  have c: "type_check parses_example ''string'' emails_table ''email'' [''email'' \<mapsto> ''Error_rate: 66.6667%''] =
             (Inr (empty_frame [''index'', ''NULL_email_STRING'']), [''email'' \<mapsto> ''Error_rate: 66.6667%''])"
    by (simp add: type_check_def table_defs check_defs)
  show ?thesis
    using e1 e2 e3 dispatch_order [OF e1 e2 e3 t a b c] by simp
qed

section \<open>The two scenarios of the specification\<close>

text \<open>A frame that the country-code check returns has no rows, and the check never writes
  the registry: whenever it selects a row it raises.\<close>

lemma country_check_returns_empty:
  "validate_country_codes df field p = (Inr f, p') \<Longrightarrow> rows f = [] \<and> p' = p"
  by (auto simp: validate_country_codes_def Let_def empty_frame_def split: sum.splits if_splits)

text \<open>
  Claim C1, on the code. On the table whose column \<^verbatim>\<open>code\<close> holds \<^verbatim>\<open>AR\<close>, \<^verbatim>\<open>ZZ\<close> and a missing
  value, the country-code check selects the row of \<^verbatim>\<open>ZZ\<close> only, and then raises
  \<^verbatim>\<open>IndexError\<close> where it indexes \<^verbatim>\<open>df.index\<close> with the frame of the selected rows: it returns no
  Finding Table. The dispatcher lets the exception pass, and so does the entry point.
\<close>

theorem country_check_raises:
  "column codes_table ''code'' = Inr [(2, StrV ''AR''), (3, StrV ''ZZ''), (4, Null)]
   \<and> filter (\<lambda>r. non_matching (snd r)) [(2 :: int, StrV ''AR''), (3, StrV ''ZZ''), (4, Null)]
       = [(3, StrV ''ZZ'')]
   \<and> validate_country_codes codes_table ''code'' Map.empty = (Inl IndexError, Map.empty)
   \<and> validate_field_dic parses codes_table ''code'' [(''type'', JStr ''country_code'')] Map.empty
       = (Inl IndexError, Map.empty)
   \<and> validate_fields_from_json parses codes_table
        (config_of [(''code'', [(''type'', JStr ''country_code'')])]) Map.empty
       = (Inl IndexError, Map.empty)"
  by (simp add: table_defs check_defs dispatch_defs entry_defs)

text \<open>
  Claim C4. On the table with the row identities 2, 3, 4 and the e-mail addresses
  \<^verbatim>\<open>a@x.com\<close>, \<^verbatim>\<open>a@x.com\<close>, \<^verbatim>\<open>b@x.com\<close>, the uniqueness check returns one row: row identity 2,
  the repeated value \<^verbatim>\<open>a@x.com\<close>, and the list [3] of the other occurrences; the registry
  entry of \<^verbatim>\<open>email\<close> becomes \<^verbatim>\<open>Error_rate: 66.6667%\<close>. With only that check configured the
  report is this frame, under upper-case column names.
\<close>

theorem unique_emails_report:
  "validate_unique_fields emails_table ''email'' Map.empty =
     (Inr \<lparr>index_name = None, range_columns = False,
           columns = [''index'', ''Repeat_email'', ''repeated_indexes''],
           rows = [(Val (IntV 0), [Val (IntV 2), Val (StrV ''a@x.com''), ListV [IntV 3]])]\<rparr>,
      [''email'' \<mapsto> ''Error_rate: 66.6667%''])
   \<and> validate_fields_from_json parses emails_table
        (config_of [(''email'', [(''unique'', JBool True)])]) Map.empty =
     (Inr \<lparr>index_name = None, range_columns = False,
           columns = [''INDEX'', ''REPEAT_EMAIL'', ''REPEATED_INDEXES''],
           rows = [(Val (IntV 0), [Val (IntV 2), Val (StrV ''a@x.com''), ListV [IntV 3]])]\<rparr>,
      [''email'' \<mapsto> ''Error_rate: 66.6667%''])"
  by (simp add: table_defs check_defs text_defs round_defs dispatch_defs entry_defs)

section \<open>A configuration that selects no check\<close>

lemma no_check_selected:
  "\<not> selects_check validations \<Longrightarrow>
     validate_field_dic parses df field validations problems = (Inr [], problems)"
  by (simp add: validate_field_dic_def selects_check_def)

lemma dispatch_all_nothing:
  "list_all (\<lambda>fv. \<not> selects_check (snd fv)) items \<Longrightarrow>
     dispatch_all parses df items list_df problems = (Inr list_df, problems)"
  by (induction items arbitrary: list_df) (auto simp: no_check_selected)

text \<open>
  Claim C2, on the code. For every table and every configuration whose rule sets select no
  check, the list of frames is empty, the report starts as \<^verbatim>\<open>pd.DataFrame()\<close>, and upper-casing
  its column names raises \<^verbatim>\<open>AttributeError\<close>: the entry point returns no report. The registry
  is as it was.
\<close>

theorem no_checks_selected_raises:
  assumes "list_all (\<lambda>fv. \<not> selects_check (snd fv)) (data_valid config)"
  shows "validate_fields_from_json parses df config problems = (Inl AttributeError, problems)"
  by (simp add: validate_fields_from_json_def dispatch_all_nothing [OF assms] DataFrame_def
      columns_str_upper_def)

theorem no_checks_selected_raises_witness:
  "list_all (\<lambda>fv. \<not> selects_check (snd fv))
     (data_valid (config_of [(''email'', [(''none'', JBool False), (''type'', JStr ''float'')])]))
   \<and> validate_fields_from_json parses_example emails_table
        (config_of [(''email'', [(''none'', JBool False), (''type'', JStr ''float'')])]) Map.empty
       = (Inl AttributeError, Map.empty)"
proof -
  have a: "list_all (\<lambda>fv. \<not> selects_check (snd fv))
     (data_valid (config_of [(''email'', [(''none'', JBool False), (''type'', JStr ''float'')])]))"
    by (simp add: config_of_def selects_check_def enabled_def type_is_def)
  show ?thesis
    using a no_checks_selected_raises [OF a, of parses_example emails_table Map.empty] by simp
qed

section \<open>Missing values under the type checks\<close>

lemma index_at_map: "index_at (map P col) col = map fst (filter P col)"
  by (induction col) (auto simp: index_at_def)

lemma frame_keys_empty [simp]: "frame_keys (empty_frame cols) = []"
  by (simp add: frame_keys_def empty_frame_def split: sum.splits)

lemma frame_keys_indexed:
  "flag \<noteq> ''index'' \<Longrightarrow> frame_keys (indexed_flag_frame ids flag) = map (\<lambda>i. Val (IntV i)) ids"
  by (simp add: frame_keys_def indexed_flag_frame_def key_place_def)

lemma map_snd_enumerate: "map (\<lambda>x. g (snd x)) (enumerate n xs) = map g xs"
  by (induction xs arbitrary: n) auto

lemma frame_keys_flag:
  "flag \<noteq> ''index'' \<Longrightarrow> frame_keys (flag_frame ids flag) = map (\<lambda>i. Val (IntV i)) ids"
  by (simp add: frame_keys_def flag_frame_def key_place_def split_beta o_def
      map_snd_enumerate [of "\<lambda>i. Val (IntV i)"])

lemma distinct_label_value:
  "distinct (map fst col) \<Longrightarrow> (i, v) \<in> set col \<Longrightarrow> (i, w) \<in> set col \<Longrightarrow> v = w"
  by (meson eq_key_imp_eq_value)

text \<open>
  Claim C10. In a table with unique row identities, a row whose value for the field is
  missing is flagged by the date-format check, whatever texts the date parser accepts. The
  integer check and the string check return frames that do not flag it, and the country-code
  check does not select it: its selection is false at a missing value, and no frame it
  returns holds the row.
\<close>

theorem null_fails_date_check_only:
  assumes "column df field = Inr col" and "(i, Null) \<in> set col" and "distinct (map fst col)"
  shows "(\<exists>f. validate_date_format parses df field problems = (Inr f, problems)
              \<and> Val (IntV i) \<in> set (frame_keys f))
       \<and> (\<exists>f p. validate_int_fields df field problems = (Inr f, p)
              \<and> Val (IntV i) \<notin> set (frame_keys f))
       \<and> (\<exists>f p. validate_string_fields df field problems = (Inr f, p)
              \<and> Val (IntV i) \<notin> set (frame_keys f))
       \<and> \<not> non_matching Null
       \<and> i \<notin> set (map fst (filter (\<lambda>r. non_matching (snd r)) col))
       \<and> Val (IntV i) \<notin> set (case fst (validate_country_codes df field problems) of
                                 Inl e \<Rightarrow> [] | Inr f \<Rightarrow> frame_keys f)"
proof -
  have unflagged: "i \<notin> set (map fst (filter P col))" if "\<not> P (i, Null)" for P
  proof
    assume "i \<in> set (map fst (filter P col))"
    then obtain v where v: "(i, v) \<in> set col" "P (i, v)"
      by auto
    then have "v = Null"
      using distinct_label_value [OF assms(3) v(1) assms(2)] by simp
    then show False
      using v(2) that by simp
  qed
  have flagged: "i \<in> set (map fst (filter P col))" if "P (i, Null)" for P
    using assms(2) that by force
  have date: "\<exists>f. validate_date_format parses df field problems = (Inr f, problems)
              \<and> Val (IntV i) \<in> set (frame_keys f)"
  proof -
    have m: "map (isna_datetime parses \<circ> snd) col = map (\<lambda>r. isna_datetime parses (snd r)) col"
      by (simp add: o_def)
    have any: "mask_any (map (\<lambda>r. isna_datetime parses (snd r)) col)"
      using assms(2) by (force simp: mask_any_def)
    have "i \<in> set (map fst (filter (\<lambda>r. isna_datetime parses (snd r)) col))"
      by (rule flagged) simp
    then show ?thesis
      using assms(1) any
      by (simp add: validate_date_format_def m index_at_map frame_keys_indexed del: set_map) force
  qed
  have int: "\<exists>f p. validate_int_fields df field problems = (Inr f, p)
              \<and> Val (IntV i) \<notin> set (frame_keys f)"
  proof -
    have "i \<notin> set (map fst (filter (\<lambda>(i, x). \<not> (isinstance_int x \<or> isinstance_float x) \<and> \<not> isnull x) col))"
      by (rule unflagged) simp
    then show ?thesis
      using assms(1)
      by (simp add: validate_int_fields_def Let_def index_at_map frame_keys_flag del: set_map) force
  qed
  have str: "\<exists>f p. validate_string_fields df field problems = (Inr f, p)
              \<and> Val (IntV i) \<notin> set (frame_keys f)"
  proof -
    have "i \<notin> set (map fst (filter (\<lambda>(i, x). \<not> isinstance_str x \<and> \<not> isnull x) col))"
      by (rule unflagged) (simp add: isnull_def)
    then show ?thesis
      using assms(1)
      by (simp add: validate_string_fields_def Let_def index_at_map frame_keys_flag del: set_map) force
  qed
  have country: "Val (IntV i) \<notin> set (case fst (validate_country_codes df field problems) of
                                 Inl e \<Rightarrow> [] | Inr f \<Rightarrow> frame_keys f)"
    using assms(1) by (simp add: validate_country_codes_def Let_def)
  have null: "\<not> non_matching Null"
    by (simp add: non_matching_def isnull_def)
  have "i \<notin> set (map fst (filter (\<lambda>r. non_matching (snd r)) col))"
    by (rule unflagged) (simp add: null)
  with date int str country null show ?thesis
    by blast
qed

theorem null_fails_date_check_only_witness:
  "column codes_table ''code'' = Inr [(2, StrV ''AR''), (3, StrV ''ZZ''), (4, Null)]
   \<and> (4 :: int, Null) \<in> set [(2, StrV ''AR''), (3, StrV ''ZZ''), (4, Null)]
   \<and> distinct (map fst [(2 :: int, StrV ''AR''), (3, StrV ''ZZ''), (4, Null)])
   \<and> (\<exists>f. validate_date_format parses_example codes_table ''code'' Map.empty = (Inr f, Map.empty)
          \<and> Val (IntV 4) \<in> set (frame_keys f))
   \<and> (\<exists>f p. validate_int_fields codes_table ''code'' Map.empty = (Inr f, p)
          \<and> Val (IntV 4) \<notin> set (frame_keys f))
   \<and> (\<exists>f p. validate_string_fields codes_table ''code'' Map.empty = (Inr f, p)
          \<and> Val (IntV 4) \<notin> set (frame_keys f))"
proof -
  let ?col = "[(2 :: int, StrV ''AR''), (3, StrV ''ZZ''), (4, Null)]"
  have c: "column codes_table ''code'' = Inr ?col"
    by (simp add: table_defs)
  have m: "(4 :: int, Null) \<in> set ?col"
    by simp
  have d: "distinct (map fst ?col)"
    by simp
  show ?thesis
    using c m d null_fails_date_check_only [OF c m d, of parses_example Map.empty] by blast
qed

section \<open>Merging two Finding Tables\<close>





lemma length_insort_by [simp]: "length (insort_by le x xs) = Suc (length xs)"
  by (induction xs) auto

lemma set_insort_by [simp]: "set (insort_by le x xs) = insert x (set xs)"
  by (induction xs) auto

lemma length_sort_by [simp]: "length (sort_by le xs) = length xs"
  by (induction xs) (auto simp: sort_by_def)

lemma set_sort_by [simp]: "set (sort_by le xs) = set xs"
  by (induction xs) (auto simp: sort_by_def)

lemma cell_eq_refl [simp]: "cell_eq k k"
proof (cases k)
  case (Val a)
  then show ?thesis
    by (cases a) (simp_all add: val_eq_def)
next
  case (ListV xs)
  then show ?thesis
    by simp
qed








lemma length_insert_at [simp]: "length (insert_at p k d) = Suc (length d)"
  by (simp add: insert_at_def)

lemma nth_insert_at [simp]: "p \<le> length d \<Longrightarrow> insert_at p k d ! p = k"
  by (simp add: insert_at_def nth_append)

lemma remove_insert_at [simp]: "p \<le> length d \<Longrightarrow> remove_at p (insert_at p k d) = d"
  by (simp add: insert_at_def remove_at_def)

lemma row_key_None [simp]: "row_key None r = fst r"
  by (cases r) simp

lemma row_data_None [simp]: "row_data None r = snd r"
  by (cases r) simp






lemma length_suffixed [simp]: "length (suffixed sfx overlap cols) = length cols"
  by (simp add: suffixed_def)

lemma finding_table_empty2:
  "flag \<noteq> ''index'' \<Longrightarrow> finding_table (empty_frame [''index'', flag])"
  by (simp add: finding_table_def empty_frame_def key_place_def remove_at_def)

lemma finding_table_flag:
  "flag \<noteq> ''index'' \<Longrightarrow> finding_table (flag_frame ids flag)"
  by (simp add: finding_table_def flag_frame_def key_place_def remove_at_def list_all_iff
      split_beta)

lemma finding_table_indexed:
  "flag \<noteq> ''index'' \<Longrightarrow> finding_table (indexed_flag_frame ids flag)"
  by (simp add: finding_table_def indexed_flag_frame_def key_place_def list_all_iff)

lemma finding_table_unique:
  "take 7 rep = ''Repeat_'' \<Longrightarrow>
   finding_table \<lparr>index_name = None, range_columns = False,
      columns = [''index'', rep, ''repeated_indexes''],
      rows = map (\<lambda>(n, (i, k, ids)). (Val (IntV (int n)), [Val i, Val k, ListV ids])) xs\<rparr>"
  by (auto simp: finding_table_def key_place_def remove_at_def list_all_iff split_beta)

lemma finding_table_empty3:
  "take 7 rep = ''Repeat_'' \<Longrightarrow>
   finding_table (empty_frame [''index'', rep, ''repeated_indexes''])"
  by (auto simp: finding_table_def empty_frame_def key_place_def remove_at_def)

lemma checks_return_finding_tables:
  shows "validate_none_fields df field p = (Inr f, p') \<Longrightarrow> finding_table f"
    and "validate_unique_fields df field p = (Inr f, p') \<Longrightarrow> finding_table f"
    and "validate_int_fields df field p = (Inr f, p') \<Longrightarrow> finding_table f"
    and "validate_string_fields df field p = (Inr f, p') \<Longrightarrow> finding_table f"
    and "validate_date_format parses df field p = (Inr f, p') \<Longrightarrow> finding_table f"
    and "validate_country_codes df field p = (Inr f, p') \<Longrightarrow> finding_table f"
proof -
  show "validate_none_fields df field p = (Inr f, p') \<Longrightarrow> finding_table f"
    by (auto simp: validate_none_fields_def Let_def finding_table_empty2 finding_table_indexed
        split: sum.splits if_splits)
  show "validate_unique_fields df field p = (Inr f, p') \<Longrightarrow> finding_table f"
    by (auto simp: validate_unique_fields_def Let_def finding_table_empty3 finding_table_unique
        split: sum.splits if_splits option.splits)
  show "validate_int_fields df field p = (Inr f, p') \<Longrightarrow> finding_table f"
    by (auto simp: validate_int_fields_def Let_def finding_table_empty2 finding_table_flag
        split: sum.splits if_splits)
  show "validate_string_fields df field p = (Inr f, p') \<Longrightarrow> finding_table f"
    by (auto simp: validate_string_fields_def Let_def finding_table_empty2 finding_table_flag
        split: sum.splits if_splits)
  show "validate_date_format parses df field p = (Inr f, p') \<Longrightarrow> finding_table f"
    by (auto simp: validate_date_format_def Let_def finding_table_empty2 finding_table_indexed
        split: sum.splits if_splits)
  show "validate_country_codes df field p = (Inr f, p') \<Longrightarrow> finding_table f"
    by (auto simp: validate_country_codes_def Let_def finding_table_empty2
        split: sum.splits if_splits)
qed



end
